theory Spec2Isabelle
  imports Complex_Main
begin

section \<open>Python strings\<close>

text \<open>
  A Python \<open>str\<close> is a sequence of code points. It is modelled as a \<^typ>\<open>string\<close>
  whose characters are the code points below 256 (Latin-1), so every definition below is
  the Python operation on that range. Only single-character separators and patterns are
  modelled where the program uses no other.
\<close>

definition LF :: char where "LF = CHR 0x0A"
definition CR :: char where "CR = CHR 0x0D"
definition dquote :: char where "dquote = CHR 0x22"
definition squote :: char where "squote = CHR 0x27"
definition colon :: char where "colon = CHR '':''"
definition period :: char where "period = CHR ''.''"
definition comma :: char where "comma = CHR '',''"
definition space :: char where "space = CHR '' ''"

text \<open>
  \<open>str.isspace\<close> on one code point: the characters \<open>str.strip()\<close> removes.
  Below 256 these are TAB, LF, VT, FF, CR, FS, GS, RS, US, SPACE, NEL and NBSP.
\<close>

definition isspace :: "char \<Rightarrow> bool" where
  "isspace c = (c \<in> set [CHR 0x09, CHR 0x0A, CHR 0x0B, CHR 0x0C, CHR 0x0D,
                          CHR 0x1C, CHR 0x1D, CHR 0x1E, CHR 0x1F, CHR 0x20,
                          CHR 0x85, CHR 0xA0])"

definition lstrip :: "string \<Rightarrow> string" where
  "lstrip s = dropWhile isspace s"

definition rstrip :: "string \<Rightarrow> string" where
  "rstrip s = rev (dropWhile isspace (rev s))"

text \<open>\<open>s.strip()\<close>\<close>

definition strip :: "string \<Rightarrow> string" where
  "strip s = rstrip (lstrip s)"

text \<open>\<open>s.replace(old, new)\<close> for a one-character \<open>old\<close>.\<close>

definition replace :: "char \<Rightarrow> string \<Rightarrow> string \<Rightarrow> string" where
  "replace old new s = concat (map (\<lambda>c. if c = old then new else [c]) s)"

text \<open>
  \<open>s.split(sep)\<close> for a one-character \<open>sep\<close>: the pieces between the separators,
  empty pieces kept, so the result is never the empty list and \<open>[0]\<close> and \<open>[-1]\<close>
  on it never raise.
\<close>

fun py_split :: "char \<Rightarrow> string \<Rightarrow> string list" where
  "py_split sep [] = [[]]"
| "py_split sep (c # cs) =
     (if c = sep then [] # py_split sep cs
      else (case py_split sep cs of
              [] \<Rightarrow> [[c]]
            | p # ps \<Rightarrow> (c # p) # ps))"

text \<open>\<open>s.startswith(prefix)\<close> and \<open>s.endswith(suffix)\<close>\<close>

definition startswith :: "string \<Rightarrow> string \<Rightarrow> bool" where
  "startswith s prefix = (take (length prefix) s = prefix)"

definition endswith :: "string \<Rightarrow> string \<Rightarrow> bool" where
  "endswith s suffix = (length suffix \<le> length s \<and> drop (length s - length suffix) s = suffix)"

text \<open>\<open>sep.join(parts)\<close>\<close>

fun join :: "string \<Rightarrow> string list \<Rightarrow> string" where
  "join sep [] = []"
| "join sep [p] = p"
| "join sep (p # q # ps) = p @ sep @ join sep (q # ps)"

text \<open>\<open>sub in s\<close> for two strings: \<open>sub\<close> occurs in \<open>s\<close> as a contiguous piece.\<close>

fun str_contains :: "string \<Rightarrow> string \<Rightarrow> bool" where
  "str_contains [] sub = (sub = [])"
| "str_contains (c # cs) sub = (startswith (c # cs) sub \<or> str_contains cs sub)"

section \<open>Response normalizer\<close>

text \<open>
  Lines 92 to 106 of \<open>analyze_transcript\<close>: the clean-up of the sentiment completion.
  \<^verbatim>\<open>
  sentiment_clean = sentiment.replace('"', '').replace("'", "").strip()
  if '\n' in sentiment_clean:
      sentiment_clean = sentiment_clean.split('\n')[0].strip()
  if ':' in sentiment_clean:
      sentiment_clean = sentiment_clean.split(':')[-1].strip()
  sentiment_parts = sentiment_clean.split('.')
  if len(sentiment_parts) > 1:
      sentiment_clean = sentiment_parts[0].strip()
  \<close>
\<close>

definition clean_sentiment :: "string \<Rightarrow> string" where
  "clean_sentiment sentiment =
     (let c1 = strip (replace squote [] (replace dquote [] sentiment));
          c2 = (if LF \<in> set c1 then strip (hd (py_split LF c1)) else c1);
          c3 = (if colon \<in> set c2 then strip (last (py_split colon c2)) else c2);
          sentiment_parts = py_split period c3
      in if length sentiment_parts > 1 then strip (hd sentiment_parts) else c3)"

text \<open>
  The five steps of the normalizer as the specification words them, each a function of
  its own, composed in the order given. The first step strips the surrounding quote
  characters and whitespace: from both ends, as long as the end character is a double
  quote, an apostrophe or whitespace.
\<close>

definition spec_strip_surrounding :: "string \<Rightarrow> string" where
  "spec_strip_surrounding s =
     rev (dropWhile (\<lambda>c. isspace c \<or> c = dquote \<or> c = squote)
       (rev (dropWhile (\<lambda>c. isspace c \<or> c = dquote \<or> c = squote) s)))"

definition spec_first_line :: "string \<Rightarrow> string" where
  "spec_first_line s = takeWhile (\<lambda>c. c \<noteq> LF) s"

definition spec_after_last_colon :: "string \<Rightarrow> string" where
  "spec_after_last_colon s =
     (if colon \<in> set s then rev (takeWhile (\<lambda>c. c \<noteq> colon) (rev s)) else s)"

definition spec_first_period_segment :: "string \<Rightarrow> string" where
  "spec_first_period_segment s = takeWhile (\<lambda>c. c \<noteq> period) s"

definition spec_normalize :: "string \<Rightarrow> string" where
  "spec_normalize s =
     strip (spec_first_period_segment (spec_after_last_colon (spec_first_line
       (spec_strip_surrounding s))))"

text \<open>
  The same five steps with another first step: every double quote and every apostrophe is
  removed, wherever it stands, and the whitespace at both ends is trimmed.
\<close>

definition remove_quotes_and_trim :: "string \<Rightarrow> string" where
  "remove_quotes_and_trim s = strip (filter (\<lambda>c. c \<noteq> dquote \<and> c \<noteq> squote) s)"

definition normalize_steps :: "string \<Rightarrow> string" where
  "normalize_steps s =
     strip (spec_first_period_segment (spec_after_last_colon (spec_first_line
       (remove_quotes_and_trim s))))"

section \<open>Python values\<close>

text \<open>
  The values \<open>json.loads\<close> produces, which are also the values a transcript can
  have on its way through the handlers. \<open>PNone\<close> is Python's \<open>None\<close>. A float
  is kept as the two things the program can observe of it: whether it is nonzero (its
  truth value) and its \<open>repr\<close>. A dict is the list of its items in insertion order.
\<close>

datatype pyval =
    PNone
  | PBool bool
  | PInt int
  | PFloat bool string
  | PStr string
  | PList "pyval list"
  | PDict "(string \<times> pyval) list"

text \<open>\<open>bool(v)\<close>, as \<open>not v\<close> and \<open>if v\<close> test it.\<close>

fun truthy :: "pyval \<Rightarrow> bool" where
  "truthy PNone = False"
| "truthy (PBool b) = b"
| "truthy (PInt i) = (i \<noteq> 0)"
| "truthy (PFloat nonzero r) = nonzero"
| "truthy (PStr s) = (s \<noteq> [])"
| "truthy (PList xs) = (xs \<noteq> [])"
| "truthy (PDict kvs) = (kvs \<noteq> [])"

definition backslash :: char where "backslash = CHR 0x5C"
definition TAB :: char where "TAB = CHR 0x09"

fun str_nat :: "nat \<Rightarrow> string" where
  "str_nat n =
     (if n < 10 then [''0123456789'' ! n]
      else str_nat (n div 10) @ [''0123456789'' ! (n mod 10)])"

declare str_nat.simps [simp del]

definition str_int :: "int \<Rightarrow> string" where
  "str_int i = (if i < 0 then CHR ''-'' # str_nat (nat (- i)) else str_nat (nat i))"

definition hex2 :: "char \<Rightarrow> string" where
  "hex2 c = [''0123456789abcdef'' ! (of_char c div 16 :: nat),
             ''0123456789abcdef'' ! (of_char c mod 16 :: nat)]"

text \<open>\<open>str.isprintable\<close> on one code point below 256.\<close>

definition isprintable :: "char \<Rightarrow> bool" where
  "isprintable c =
     (let n = (of_char c :: nat) in (32 \<le> n \<and> n < 127) \<or> (161 \<le> n \<and> n \<noteq> 173))"

definition repr_char :: "char \<Rightarrow> char \<Rightarrow> string" where
  "repr_char quote c =
     (if c = quote \<or> c = backslash then [backslash, c]
      else if c = TAB then [backslash, CHR ''t'']
      else if c = LF then [backslash, CHR ''n'']
      else if c = CR then [backslash, CHR ''r'']
      else if isprintable c then [c]
      else [backslash, CHR ''x''] @ hex2 c)"

text \<open>\<open>repr(s)\<close> of a string: double quotes only when it has an apostrophe and no double quote.\<close>

definition repr_str :: "string \<Rightarrow> string" where
  "repr_str s =
     (let quote = (if squote \<in> set s \<and> dquote \<notin> set s then dquote else squote)
      in [quote] @ concat (map (repr_char quote) s) @ [quote])"

fun py_repr :: "pyval \<Rightarrow> string" where
  "py_repr PNone = ''None''"
| "py_repr (PBool b) = (if b then ''True'' else ''False'')"
| "py_repr (PInt i) = str_int i"
| "py_repr (PFloat nonzero r) = r"
| "py_repr (PStr s) = repr_str s"
| "py_repr (PList xs) = ''['' @ join '', '' (map py_repr xs) @ '']''"
| "py_repr (PDict kvs) =
     ''{'' @ join '', '' (map (\<lambda>kv. repr_str (fst kv) @ '': '' @ py_repr (snd kv)) kvs) @ ''}''"

text \<open>\<open>str(v)\<close>, which is also what an f-string puts in place of \<open>{v}\<close>.\<close>

definition py_str :: "pyval \<Rightarrow> string" where
  "py_str v = (case v of PStr s \<Rightarrow> s | _ \<Rightarrow> py_repr v)"

subsection \<open>Exceptions\<close>

text \<open>
  An exception is its class and its \<open>str(e)\<close>. Where the program never reads the text
  (the exception is not caught), only the class is carried.
\<close>

datatype exc_type =
    JSONDecodeError
  | AttributeError
  | TypeError
  | KeyError
  | FileNotFoundError
  | RuntimeError
  | OtherError string

datatype py_exception = Exc (exc_type: exc_type) (exc_str: string)

section \<open>The world the handlers act on\<close>

text \<open>
  One completion request to the inference client:
  \<open>client.chat.completions.create(messages=[{"role": ..., "content": ...}], model=...,
  temperature=...)\<close>.
\<close>

record request =
  msg_role :: string
  msg_content :: string
  model :: string
  temperature :: rat

text \<open>
  The inference client is an external collaborator: a request either raises, or yields the
  text \<open>response.choices[0].message.content\<close>. An exception raised while reading that
  text out of the response counts as the call raising: both happen inside the same
  \<open>try\<close>. The two requests of one analysis always differ, so a function of the request
  describes any pair of answers.
\<close>

type_synonym groq = "request \<Rightarrow> py_exception + string"

text \<open>
  \<open>csv_file\<close> is the text of \<open>call_analysis.csv\<close>, \<open>None\<close> when the file does not
  exist; opening a file for writing and reading an existing file succeed.
  \<open>flashes\<close> are the flashed (message, category) pairs kept in the session.
  \<open>inference_calls\<close> and \<open>saves\<close> are logs the program does not have: every request
  sent to the client, and the arguments of every call of \<open>save_to_csv\<close>, in order.
  Output written with \<open>print\<close> is not part of the world.
\<close>

record world =
  csv_file :: "string option"
  flashes :: "(string \<times> string) list"
  inference_calls :: "request list"
  saves :: "(pyval \<times> string \<times> string) list"

text \<open>
  The application is created by \<open>app = Flask(__name__)\<close> and configured with
  \<open>MAX_CONTENT_LENGTH\<close> alone (lines 12 and 13): it has no secret key.
\<close>

definition app_secret_key :: "string option" where
  "app_secret_key = None"

text \<open>
  Flask's \<open>flash(message, category)\<close> stores the pair in the session. The session needs
  the application's secret key; without one, storing into it raises \<open>RuntimeError\<close> and
  nothing is stored.
\<close>

definition flash :: "string \<Rightarrow> string \<Rightarrow> world \<Rightarrow> py_exception + world" where
  "flash message category w =
     (case app_secret_key of
        None \<Rightarrow>
          Inl (Exc RuntimeError
                 (''The session is unavailable because no secret key was set.  '' @
                  ''Set the secret_key on the application to something unique and secret.''))
      | Some key \<Rightarrow> Inr (w\<lparr>flashes := flashes w @ [(message, category)]\<rparr>))"

text \<open>
  What a handler returns. \<open>Render\<close> is \<open>render_template(name, result=...)\<close>,
  \<open>Redirect\<close> is \<open>redirect(url_for(endpoint))\<close>, \<open>Json\<close> is a status with
  \<open>jsonify(body)\<close>, \<open>Attachment\<close> is \<open>send_file\<close> with a download name, a MIME type
  and the file's text, and \<open>ServerError\<close> is an exception that leaves the handler.
\<close>

datatype response =
    Render string "(string \<times> pyval) list"
  | Redirect string
  | Json nat "(string \<times> pyval) list"
  | Attachment string string string
  | ServerError exc_type

text \<open>
  \<open>flash(message, 'error')\<close> followed by \<open>return redirect(url_for(endpoint))\<close>, where no
  \<open>try\<close> encloses the two: an exception of \<open>flash\<close> leaves the handler.
\<close>

definition flash_and_redirect :: "string \<Rightarrow> string \<Rightarrow> world \<Rightarrow> response \<times> world" where
  "flash_and_redirect message endpoint w =
     (case flash message ''error'' w of
        Inl e \<Rightarrow> (ServerError (exc_type e), w)
      | Inr w' \<Rightarrow> (Redirect endpoint, w'))"

section \<open>analyze\_transcript\<close>

definition summary_prompt :: "string \<Rightarrow> string" where
  "summary_prompt transcript = concat [
        ''\<newline>'',
        ''        You are an expert customer service analyst. Summarize the following customer service conversation in exactly 2-3 sentences. Focus on the main issue, actions taken, and outcome.\<newline>'',
        ''\<newline>'',
        ''        Customer Service Conversation:\<newline>'',
        ''        '', transcript, ''\<newline>'',
        ''\<newline>'',
        ''        Summary (2-3 sentences only):\<newline>'',
        ''        '']"

definition sentiment_prompt :: "string \<Rightarrow> string" where
  "sentiment_prompt transcript = concat [
        ''\<newline>'',
        ''        You are an expert sentiment analyst. Analyze the CUSTOMER's overall sentiment throughout this conversation and provide a descriptive sentiment label.\<newline>'',
        ''\<newline>'',
        ''        Customer Service Conversation:\<newline>'',
        ''        '', transcript, ''\<newline>'',
        ''\<newline>'',
        ''        Instructions:\<newline>'',
        ''        - Focus ONLY on the customer's sentiment, not the agent's\<newline>'',
        ''        - Consider the entire conversation, not just the beginning\<newline>'',
        ''        - Provide a descriptive sentiment that captures the customer's emotional state\<newline>'',
        ''\<newline>'',
        ''        Choose from these specific sentiment categories:\<newline>'',
        ''        - \"Satisfied and Positive\" - Issue resolved, customer happy/grateful\<newline>'',
        ''        - \"Frustrated and Negative\" - Customer angry, unresolved issues\<newline>'',
        ''        - \"Confused and Negative\" - Customer lost, getting poor help\<newline>'',
        ''        - \"Disappointed and Negative\" - Customer let down by service\<newline>'',
        ''        - \"Impatient and Negative\" - Customer annoyed by delays/process\<newline>'',
        ''        - \"Relieved and Positive\" - Problem solved after difficulty\<newline>'',
        ''        - \"Grateful and Positive\" - Customer appreciative of help\<newline>'',
        ''        - \"Neutral and Cautious\" - Customer uncertain about outcome\<newline>'',
        ''        - \"Mixed and Neutral\" - Customer has both positive and negative feelings\<newline>'',
        ''\<newline>'',
        ''        Customer Sentiment (respond with exactly one phrase from above):\<newline>'',
        ''        '']"

definition summary_request :: "pyval \<Rightarrow> request" where
  "summary_request transcript =
     \<lparr>msg_role = ''user'', msg_content = summary_prompt (py_str transcript),
      model = ''llama-3.1-8b-instant'', temperature = 3 / 10\<rparr>"

definition sentiment_request :: "pyval \<Rightarrow> request" where
  "sentiment_request transcript =
     \<lparr>msg_role = ''user'', msg_content = sentiment_prompt (py_str transcript),
      model = ''llama-3.1-8b-instant'', temperature = 1 / 10\<rparr>"

text \<open>
  The global \<open>client\<close> is a parameter: \<open>None\<close> when the key is missing or the client
  could not be built. The whole body runs inside \<open>try ... except Exception as e\<close>, so
  each raise of a call is a branch that returns the two error strings.
\<close>

definition analyze_transcript :: "groq option \<Rightarrow> pyval \<Rightarrow> world \<Rightarrow> (string \<times> string) \<times> world" where
  "analyze_transcript client transcript w =
     (case client of
        None \<Rightarrow>
          ((''Error: Groq client not initialized'', ''Error: Groq client not initialized''), w)
      | Some create \<Rightarrow>
          (let w1 = w\<lparr>inference_calls := inference_calls w @ [summary_request transcript]\<rparr>
           in case create (summary_request transcript) of
                Inl e \<Rightarrow>
                  ((''Error generating summary: '' @ exc_str e,
                    ''Error analyzing sentiment: '' @ exc_str e), w1)
              | Inr summary_content \<Rightarrow>
                  (let summary = strip summary_content;
                       w2 = w1\<lparr>inference_calls :=
                                inference_calls w1 @ [sentiment_request transcript]\<rparr>
                   in case create (sentiment_request transcript) of
                        Inl e \<Rightarrow>
                          ((''Error generating summary: '' @ exc_str e,
                            ''Error analyzing sentiment: '' @ exc_str e), w2)
                      | Inr sentiment_content \<Rightarrow>
                          (let sentiment = strip sentiment_content
                           in ((summary, clean_sentiment sentiment), w2)))))"

section \<open>Result store\<close>

text \<open>
  \<open>csv.DictWriter\<close> with the default (excel) dialect and \<open>QUOTE_MINIMAL\<close>, for rows of
  more than one field: a field is quoted when it has a comma, a double quote, a carriage
  return or a line feed, double quotes inside it doubled; fields are joined by commas and
  the row ends with CR LF. The file is opened with \<open>newline=''\<close>, so the text is written
  as it is.
\<close>

definition csv_field :: "string \<Rightarrow> string" where
  "csv_field f =
     (if list_ex (\<lambda>c. c = comma \<or> c = dquote \<or> c = CR \<or> c = LF) f
      then [dquote] @ replace dquote [dquote, dquote] f @ [dquote]
      else f)"

definition csv_row :: "string list \<Rightarrow> string" where
  "csv_row row = join [comma] (map csv_field row) @ [CR, LF]"

text \<open>\<open>writer.writeheader()\<close> for the field names \<open>['Transcript', 'Summary', 'Sentiment']\<close>\<close>

definition csv_header :: string where
  "csv_header = csv_row [''Transcript'', ''Summary'', ''Sentiment'']"

text \<open>\<open>x.replace('\n', ' ').replace('\r', ' ').replace('"', '').strip()\<close>\<close>

definition clean_field :: "string \<Rightarrow> string" where
  "clean_field x = strip (replace dquote [] (replace CR [space] (replace LF [space] x)))"

text \<open>
  \<open>save_to_csv\<close>. The summary and the sentiment are strings wherever it is called; the
  transcript of the page handler can be any value of an uploaded document, and
  \<open>transcript.replace\<close> raises \<open>AttributeError\<close> on one that is not a string, before the
  file is opened. The result is the exception, if any, and the world.
\<close>

definition save_to_csv :: "pyval \<Rightarrow> string \<Rightarrow> string \<Rightarrow> world \<Rightarrow> exc_type option \<times> world" where
  "save_to_csv transcript summary sentiment w =
     (let w1 = w\<lparr>saves := saves w @ [(transcript, summary, sentiment)]\<rparr>
      in case transcript of
           PStr t \<Rightarrow>
             (let clean_transcript = clean_field t;
                  clean_summary = clean_field summary;
                  clean_sentiment = clean_field sentiment
              in (None, w1\<lparr>csv_file :=
                    Some (csv_header @ csv_row [clean_transcript, clean_summary, clean_sentiment])\<rparr>))
         | _ \<Rightarrow> (Some AttributeError, w1))"

section \<open>Transcript extractor\<close>

text \<open>
  \<open>json.loads\<close> is a parameter: on a text it raises or yields a value.
  \<open>parse_json_transcript\<close> catches \<open>json.JSONDecodeError\<close> alone and returns \<open>None\<close>
  for it; any other exception leaves the function. \<open>'k' in data\<close> and \<open>data['k']\<close> on a
  dict are the lookup \<open>map_of\<close>.
\<close>

type_synonym json_loads = "string \<Rightarrow> py_exception + pyval"

definition parse_json_transcript :: "json_loads \<Rightarrow> string \<Rightarrow> py_exception + pyval" where
  "parse_json_transcript loads json_content =
     (case loads json_content of
        Inl e \<Rightarrow> (if exc_type e = JSONDecodeError then Inr PNone else Inl e)
      | Inr data \<Rightarrow>
          (case data of
             PDict d \<Rightarrow>
               (case map_of d ''transcript'' of Some v \<Rightarrow> Inr v | None \<Rightarrow>
               (case map_of d ''conversation'' of Some v \<Rightarrow> Inr v | None \<Rightarrow>
               (case map_of d ''dialogue'' of Some v \<Rightarrow> Inr v | None \<Rightarrow>
               (case map_of d ''text'' of Some v \<Rightarrow> Inr v | None \<Rightarrow>
                  Inr (PStr (py_str data))))))
           | PList items \<Rightarrow> Inr (PStr (join '' '' (map py_str items)))
           | _ \<Rightarrow> Inr (PStr (py_str data))))"

section \<open>Request handlers\<close>

text \<open>
  An uploaded file: its name, and what \<open>file.read().decode('utf-8')\<close> gives (the text, or
  the exception it raises). A \<open>FileStorage\<close> is true when its name is not empty.
\<close>

record upload =
  filename :: string
  decoded :: "py_exception + string"

text \<open>
  A POST to \<open>/analyze\<close>: \<open>request.files.get('json_file')\<close> and
  \<open>request.form.get('transcript')\<close>.
\<close>

record page_request =
  json_file :: "upload option"
  form_transcript :: "string option"

text \<open>
  Lines 171 to 195 of \<open>analyze\<close>: the transcript to analyse (\<open>Inr\<close>), or the early
  end of the handler (\<open>Inl\<close>). The \<open>try\<close> of lines 177 to 185 encloses the decoding, the
  parsing and the flash of line 181, so an exception of any of the three reaches the
  \<open>except\<close> of line 183 (\<open>failed\<close> below); the flashes of lines 184, 187 and 194 are
  enclosed by nothing.
\<close>

definition analyze_input :: "json_loads \<Rightarrow> page_request \<Rightarrow> world \<Rightarrow> (response \<times> world) + pyval" where
  "analyze_input loads req w =
     (let checked = (\<lambda>transcript.
            if \<not> truthy transcript
            then Inl (flash_and_redirect
                        ''Please enter a transcript or upload a JSON file to analyze.'' ''index'' w)
            else Inr transcript);
          failed = (\<lambda>e.
            Inl (flash_and_redirect (''Error reading JSON file: '' @ exc_str e) ''index'' w))
      in case json_file req of
           Some file \<Rightarrow>
             (if filename file \<noteq> [] \<and> endswith (filename file) ''.json''
              then (case decoded file of
                      Inl e \<Rightarrow> failed e
                    | Inr json_content \<Rightarrow>
                        (case parse_json_transcript loads json_content of
                           Inl e \<Rightarrow> failed e
                         | Inr transcript \<Rightarrow>
                             (if \<not> truthy transcript
                              then (case flash ''Invalid JSON format. Please check your file.''
                                           ''error'' w of
                                      Inl e \<Rightarrow> failed e
                                    | Inr w' \<Rightarrow> Inl (Redirect ''index'', w'))
                              else checked transcript)))
              else Inl (flash_and_redirect ''Please upload a valid JSON file.'' ''index'' w))
         | None \<Rightarrow>
             checked (PStr (strip (case form_transcript req of None \<Rightarrow> [] | Some t \<Rightarrow> t))))"

text \<open>The handler of \<open>POST /analyze\<close>; lines 197 to 211 follow the input.\<close>

definition analyze :: "json_loads \<Rightarrow> groq option \<Rightarrow> page_request \<Rightarrow> world \<Rightarrow> response \<times> world" where
  "analyze loads client req w =
     (case analyze_input loads req w of
        Inl early \<Rightarrow> early
      | Inr transcript \<Rightarrow>
          (case analyze_transcript client transcript w of
             ((summary, sentiment), w1) \<Rightarrow>
               (let result = [(''transcript'', transcript), (''summary'', PStr summary),
                              (''sentiment'', PStr sentiment)]
                in if \<not> (startswith summary ''Error'' \<or> startswith sentiment ''Error'')
                   then (case save_to_csv transcript summary sentiment w1 of
                           (Some e, w2) \<Rightarrow> (ServerError e, w2)
                         | (None, w2) \<Rightarrow> (Render ''result.html'' result, w2))
                   else (Render ''result.html'' result, w1))))"

text \<open>
  \<open>'transcript' in data\<close>, \<open>data['transcript']\<close> and \<open>v.strip()\<close> on the values
  \<open>request.get_json()\<close> can return: each raises on a value that has no such operation.
\<close>

definition py_contains :: "pyval \<Rightarrow> string \<Rightarrow> exc_type + bool" where
  "py_contains data k =
     (case data of
        PDict d \<Rightarrow> Inr (map_of d k \<noteq> None)
      | PList xs \<Rightarrow> Inr (PStr k \<in> set xs)
      | PStr s \<Rightarrow> Inr (str_contains s k)
      | _ \<Rightarrow> Inl TypeError)"

definition py_getitem :: "pyval \<Rightarrow> string \<Rightarrow> exc_type + pyval" where
  "py_getitem data k =
     (case data of
        PDict d \<Rightarrow> (case map_of d k of Some v \<Rightarrow> Inr v | None \<Rightarrow> Inl KeyError)
      | _ \<Rightarrow> Inl TypeError)"

definition py_strip :: "pyval \<Rightarrow> exc_type + string" where
  "py_strip v = (case v of PStr s \<Rightarrow> Inr (strip s) | _ \<Rightarrow> Inl AttributeError)"

text \<open>
  The handler of \<open>POST /api/analyze\<close>; \<open>data\<close> is what \<open>request.get_json()\<close> returned.
  \<open>not data or 'transcript' not in data\<close> tests the second operand only when the first
  is false.
\<close>

definition api_analyze :: "groq option \<Rightarrow> pyval \<Rightarrow> world \<Rightarrow> response \<times> world" where
  "api_analyze client data w =
     (if \<not> truthy data then (Json 400 [(''error'', PStr ''No transcript provided'')], w)
      else case py_contains data ''transcript'' of
        Inl e \<Rightarrow> (ServerError e, w)
      | Inr present \<Rightarrow>
          (if \<not> present then (Json 400 [(''error'', PStr ''No transcript provided'')], w)
           else case py_getitem data ''transcript'' of
             Inl e \<Rightarrow> (ServerError e, w)
           | Inr v \<Rightarrow>
               (case py_strip v of
                  Inl e \<Rightarrow> (ServerError e, w)
                | Inr transcript \<Rightarrow>
                    (if transcript = []
                     then (Json 400 [(''error'', PStr ''Empty transcript provided'')], w)
                     else case analyze_transcript client (PStr transcript) w of
                       ((summary, sentiment), w1) \<Rightarrow>
                         (let body = [(''transcript'', PStr transcript), (''summary'', PStr summary),
                                      (''sentiment'', PStr sentiment), (''status'', PStr ''success'')]
                          in if \<not> (startswith summary ''Error'' \<or> startswith sentiment ''Error'')
                             then (case save_to_csv (PStr transcript) summary sentiment w1 of
                                     (Some e, w2) \<Rightarrow> (ServerError e, w2)
                                   | (None, w2) \<Rightarrow> (Json 200 body, w2))
                             else (Json 200 body, w1))))))"

text \<open>
  \<open>send_file\<close> on \<open>call_analysis.csv\<close>: the attachment, or the exception for a missing
  file, whose text \<open>not_found\<close> names a path the model does not have. The application is
  taken to run in its own directory, so \<open>send_file\<close> reads the file that \<open>os.path.isfile\<close>
  tested.
\<close>

definition send_file :: "string \<Rightarrow> world \<Rightarrow> py_exception + response" where
  "send_file not_found w =
     (case csv_file w of
        None \<Rightarrow> Inl (Exc FileNotFoundError not_found)
      | Some text \<Rightarrow> Inr (Attachment ''call_analysis.csv'' ''text/csv'' text))"

text \<open>The handler of \<open>GET /download-csv\<close>.\<close>

definition download_csv :: "string \<Rightarrow> world \<Rightarrow> response \<times> world" where
  "download_csv not_found w =
     (if csv_file w = None
      then flash_and_redirect ''No analysis data found. Please analyze a transcript first.''
             ''index'' (w\<lparr>csv_file := Some csv_header\<rparr>)
      else case send_file not_found w of
             Inr attachment \<Rightarrow> (attachment, w)
           | Inl e \<Rightarrow>
               flash_and_redirect (''Error downloading CSV: '' @ exc_str e) ''history'' w)"

section \<open>Definitions the claims are stated with\<close>

text \<open>
  The save of a handler run that started in \<open>w\<close>, ended in \<open>w'\<close> and analysed
  \<open>transcript\<close> into \<open>summary\<close> and \<open>sentiment\<close>: when either text starts with
  "Error", \<open>save_to_csv\<close> was not called and the file is as it was; otherwise it was
  called once, with these three arguments.
\<close>

definition save_decided :: "world \<Rightarrow> world \<Rightarrow> pyval \<Rightarrow> string \<Rightarrow> string \<Rightarrow> bool" where
  "save_decided w w' transcript summary sentiment =
     (if startswith summary ''Error'' \<or> startswith sentiment ''Error''
      then saves w' = saves w \<and> csv_file w' = csv_file w
      else saves w' = saves w @ [(transcript, summary, sentiment)])"

text \<open>
  The sanitizing of a field as the specification words it: every line feed and carriage
  return becomes a space, every double quote is removed.
\<close>

definition spec_sanitize :: "string \<Rightarrow> string" where
  "spec_sanitize x = filter (\<lambda>c. c \<noteq> dquote) (map (\<lambda>c. if c = LF \<or> c = CR then space else c) x)"

text \<open>
  The file the specification describes after a save: the header row and one data row
  holding the fields sanitized as above.
\<close>

definition claimed_text :: "string \<Rightarrow> string \<Rightarrow> string \<Rightarrow> string" where
  "claimed_text t s m =
     ''Transcript,Summary,Sentiment'' @ [CR, LF] @
     csv_row [spec_sanitize t, spec_sanitize s, spec_sanitize m]"

text \<open>The same with each sanitized field also trimmed of whitespace at both ends.\<close>

definition stored_text :: "string \<Rightarrow> string \<Rightarrow> string \<Rightarrow> string" where
  "stored_text t s m =
     ''Transcript,Summary,Sentiment'' @ [CR, LF] @
     csv_row [strip (spec_sanitize t), strip (spec_sanitize s), strip (spec_sanitize m)]"

text \<open>A sequence of saves of string triples, one after the other.\<close>

fun save_all :: "world \<Rightarrow> (string \<times> string \<times> string) list \<Rightarrow> world" where
  "save_all w [] = w"
| "save_all w ((t, s, m) # rs) = save_all (snd (save_to_csv (PStr t) s m w)) rs"

text \<open>The keys of an uploaded mapping in the order the specification gives them.\<close>

definition priority_keys :: "string list" where
  "priority_keys = [''transcript'', ''conversation'', ''dialogue'', ''text'']"

text \<open>The value of the first of the keys that the mapping has, if any.\<close>

fun first_match :: "string list \<Rightarrow> (string \<times> pyval) list \<Rightarrow> pyval option" where
  "first_match [] d = None"
| "first_match (k # ks) d = (case map_of d k of Some v \<Rightarrow> Some v | None \<Rightarrow> first_match ks d)"

section \<open>Sample inputs\<close>

text \<open>
  Concrete worlds, clients and requests at which the theorems below are instantiated.
  \<open>empty_world\<close>: no CSV file, nothing flashed, nothing logged.
\<close>

definition empty_world :: world where
  "empty_world = \<lparr>csv_file = None, flashes = [], inference_calls = [], saves = []\<rparr>"

text \<open>A client whose every call raises.\<close>

definition failing_client :: groq where
  "failing_client = (\<lambda>rq. Inl (Exc (OtherError ''APIConnectionError'') ''Connection error.''))"

text \<open>A client that answers every request with the same label.\<close>

definition echo_client :: groq where
  "echo_client = (\<lambda>rq. Inr ''Satisfied and Positive'')"

text \<open>A \<open>json.loads\<close> that yields the given value: the document is the text beside it.\<close>

definition const_loads :: "pyval \<Rightarrow> json_loads" where
  "const_loads v = (\<lambda>json_content. Inr v)"

text \<open>A POST to \<open>/analyze\<close> with the text field only.\<close>

definition form_request :: "string \<Rightarrow> page_request" where
  "form_request t = \<lparr>json_file = None, form_transcript = Some t\<rparr>"

text \<open>A POST to \<open>/analyze\<close> with an uploaded file that decodes to the given text.\<close>

definition upload_request :: "string \<Rightarrow> string \<Rightarrow> page_request" where
  "upload_request name text =
     \<lparr>json_file = Some \<lparr>filename = name, decoded = Inr text\<rparr>, form_transcript = None\<rparr>"

text \<open>A world whose CSV file holds one record.\<close>

definition stored_world :: world where
  "stored_world = empty_world\<lparr>csv_file := Some (stored_text ''hello'' ''ok'' ''fine'')\<rparr>"

section \<open>Facts about the string operations\<close>

lemma py_split_nonempty: "py_split sep s \<noteq> []"
  by (induction s) (auto split: list.splits)

lemma hd_py_split: "hd (py_split sep s) = takeWhile (\<lambda>c. c \<noteq> sep) s"
  using py_split_nonempty [of sep]
  by (induction s) (auto split: list.splits)

lemma py_split_no_sep: "sep \<notin> set s \<Longrightarrow> py_split sep s = [s]"
  by (induction s) auto

lemma length_py_split: "length (py_split sep s) = Suc (length (filter (\<lambda>c. c = sep) s))"
  by (induction s) (auto split: list.splits)

lemma py_split_many: "(Suc 0 < length (py_split sep s)) = (sep \<in> set s)"
  by (simp add: length_py_split filter_empty_conv)

lemma rev_tw_rev_all: "sep \<notin> set s \<Longrightarrow> rev (takeWhile (\<lambda>c. c \<noteq> sep) (rev s)) = s"
proof -
  assume "sep \<notin> set s"
  then have "takeWhile (\<lambda>c. c \<noteq> sep) (rev s) = rev s"
    by (intro takeWhile_eq_all_conv [THEN iffD2]) auto
  then show ?thesis by (simp only: rev_rev_ident)
qed

lemma last_py_split: "last (py_split sep s) = rev (takeWhile (\<lambda>c. c \<noteq> sep) (rev s))"
proof (induction s)
  case Nil show ?case by simp
next
  case (Cons c cs)
  show ?case
  proof (cases "sep \<in> set cs")
    case False
    then have "py_split sep cs = [cs]" by (rule py_split_no_sep)
    with False show ?thesis
      by (auto simp: takeWhile_append)
  next
    case True
    then have "Suc 0 < length (py_split sep cs)" by (simp add: py_split_many)
    then obtain p q ps where ps: "py_split sep cs = p # q # ps"
      by (cases "py_split sep cs"; cases "tl (py_split sep cs)") auto
    with Cons True show ?thesis
      by (auto simp: takeWhile_append)
  qed
qed

lemma replace_nil: "replace old [] s = filter (\<lambda>c. c \<noteq> old) s"
  by (induction s) (auto simp: replace_def)

lemma rstrip_Cons: "rstrip (a # s) = (if isspace a \<and> rstrip s = [] then [] else a # rstrip s)"
  by (auto simp: rstrip_def dropWhile_append)

lemma rstrip_Nil: "rstrip [] = []" by (simp add: rstrip_def)

lemma lstrip_rstrip: "lstrip (rstrip s) = rstrip (lstrip s)"
  by (induction s) (auto simp: rstrip_Cons lstrip_def rstrip_Nil)

lemma rev_strip: "rev (strip s) = strip (rev s)"
  by (metis lstrip_def lstrip_rstrip rev_rev_ident rstrip_def strip_def)

lemma tw_lstrip: "\<not> isspace c \<Longrightarrow> takeWhile (\<lambda>x. x \<noteq> c) (lstrip s) = lstrip (takeWhile (\<lambda>x. x \<noteq> c) s)"
  by (induction s) (auto simp: lstrip_def)

lemma tw_rstrip: "\<not> isspace c \<Longrightarrow> rstrip (takeWhile (\<lambda>x. x \<noteq> c) (rstrip s)) = rstrip (takeWhile (\<lambda>x. x \<noteq> c) s)"
proof (induction s)
  case Nil show ?case by (simp add: rstrip_Nil)
next
  case (Cons a s)
  then show ?case by (auto simp: rstrip_Cons rstrip_Nil)
qed

lemma rstrip_idem: "rstrip (rstrip s) = rstrip s"
  by (induction s) (auto simp: rstrip_Cons rstrip_Nil)

lemma lstrip_idem: "lstrip (lstrip s) = lstrip s"
  by (simp add: lstrip_def)

lemma strip_idem: "strip (strip s) = strip s"
  by (simp add: strip_def lstrip_rstrip lstrip_idem rstrip_idem)

lemma strip_tw_strip: "\<not> isspace c \<Longrightarrow> strip (takeWhile (\<lambda>x. x \<noteq> c) (strip s)) = strip (takeWhile (\<lambda>x. x \<noteq> c) s)"
proof -
  assume c: "\<not> isspace c"
  let ?tw = "takeWhile (\<lambda>x. x \<noteq> c)"
  have "strip (?tw (strip s)) = lstrip (rstrip (?tw (lstrip (rstrip s))))"
    by (simp add: strip_def lstrip_rstrip)
  also have "\<dots> = lstrip (rstrip (lstrip (?tw (rstrip s))))"
    by (simp add: tw_lstrip c)
  also have "\<dots> = lstrip (lstrip (rstrip (?tw (rstrip s))))"
    by (simp add: lstrip_rstrip)
  also have "\<dots> = lstrip (rstrip (?tw s))"
    by (simp add: lstrip_idem tw_rstrip c)
  finally show ?thesis by (simp add: strip_def lstrip_rstrip)
qed

lemma strip_subset: "set (strip s) \<subseteq> set s"
  by (metis dual_order.trans lstrip_def rstrip_def set_dropWhileD set_rev strip_def subsetI)

lemma not_isspace_colon: "\<not> isspace colon" by (simp add: isspace_def colon_def)
lemma not_isspace_period: "\<not> isspace period" by (simp add: isspace_def period_def)

lemma replace_quotes:
  "replace squote [] (replace dquote [] s) = filter (\<lambda>c. c \<noteq> dquote \<and> c \<noteq> squote) s"
  by (simp add: replace_nil conj_commute)

lemma tw_no_sep: "sep \<notin> set s \<Longrightarrow> takeWhile (\<lambda>c. c \<noteq> sep) s = s"
  by (intro takeWhile_eq_all_conv [THEN iffD2]) auto

lemma spec_after_last_colon_eq:
  "spec_after_last_colon s = rev (takeWhile (\<lambda>c. c \<noteq> colon) (rev s))"
  by (simp add: spec_after_last_colon_def rev_tw_rev_all)

lemma strip_after_strip:
  "strip (spec_after_last_colon (strip s)) = strip (spec_after_last_colon s)"
proof -
  have "strip (spec_after_last_colon (strip s))
      = rev (strip (takeWhile (\<lambda>c. c \<noteq> colon) (strip (rev s))))"
    by (simp add: spec_after_last_colon_eq rev_strip)
  also have "\<dots> = rev (strip (takeWhile (\<lambda>c. c \<noteq> colon) (rev s)))"
    by (simp add: strip_tw_strip not_isspace_colon)
  finally show ?thesis by (simp add: spec_after_last_colon_eq rev_strip)
qed

lemma clean_sentiment_steps:
  "clean_sentiment s =
     (let c1 = remove_quotes_and_trim s;
          c2 = strip (spec_first_line c1);
          c3 = strip (spec_after_last_colon c2)
      in strip (spec_first_period_segment c3))"
proof -
  define c1 where "c1 = remove_quotes_and_trim s"
  define c2 where "c2 = strip (spec_first_line c1)"
  define c3 where "c3 = strip (spec_after_last_colon c2)"
  have s1: "strip c1 = c1" by (simp add: c1_def remove_quotes_and_trim_def strip_idem)
  have e2: "(if LF \<in> set c1 then strip (hd (py_split LF c1)) else c1) = c2"
    by (simp add: c2_def spec_first_line_def hd_py_split tw_no_sep s1)
  have s2: "strip c2 = c2" by (simp add: c2_def strip_idem)
  have e3: "(if colon \<in> set c2 then strip (last (py_split colon c2)) else c2) = c3"
    by (simp add: c3_def spec_after_last_colon_def last_py_split s2)
  have s3: "strip c3 = c3" by (simp add: c3_def strip_idem)
  have e4: "(if 1 < length (py_split period c3) then strip (hd (py_split period c3)) else c3)
        = strip (spec_first_period_segment c3)"
    by (simp add: spec_first_period_segment_def hd_py_split py_split_many tw_no_sep s3)
  have "clean_sentiment s = strip (spec_first_period_segment c3)"
    by (simp only: clean_sentiment_def Let_def replace_quotes
          remove_quotes_and_trim_def [symmetric] c1_def [symmetric] e2 e3 e4)
  then show ?thesis by (simp add: Let_def c1_def c2_def c3_def)
qed

lemma clean_sentiment_closed_form:
  "clean_sentiment s = normalize_steps s"
proof -
  have "clean_sentiment s =
      strip (spec_first_period_segment (strip (spec_after_last_colon (spec_first_line
        (remove_quotes_and_trim s)))))"
    by (simp add: clean_sentiment_steps Let_def strip_after_strip)
  then show ?thesis
    by (simp add: normalize_steps_def spec_first_period_segment_def strip_tw_strip not_isspace_period)
qed

lemma clean_sentiment_fixed:
  assumes "strip s = s" "dquote \<notin> set s" "squote \<notin> set s" "LF \<notin> set s"
    "colon \<notin> set s" "period \<notin> set s"
  shows "clean_sentiment s = s"
proof -
  have "filter (\<lambda>c. c \<noteq> dquote \<and> c \<noteq> squote) s = s"
    using assms by (intro filter_True) auto
  then show ?thesis
    using assms by (simp add: clean_sentiment_def replace_quotes py_split_no_sep)
qed

lemma set_strip: "x \<in> set (strip s) \<Longrightarrow> x \<in> set s"
  using strip_subset by blast

lemma clean_sentiment_chars:
  "dquote \<notin> set (clean_sentiment s) \<and> squote \<notin> set (clean_sentiment s) \<and>
   LF \<notin> set (clean_sentiment s) \<and> colon \<notin> set (clean_sentiment s) \<and>
   period \<notin> set (clean_sentiment s)"
proof -
  let ?q = "remove_quotes_and_trim s"
  let ?l = "spec_first_line ?q"
  let ?a = "spec_after_last_colon ?l"
  let ?p = "spec_first_period_segment ?a"
  have q: "dquote \<notin> set ?q \<and> squote \<notin> set ?q"
    by (auto simp: remove_quotes_and_trim_def dest: set_strip)
  have l: "set ?l \<subseteq> set ?q" "LF \<notin> set ?l"
    by (auto simp: spec_first_line_def dest: set_takeWhileD)
  have a: "set ?a \<subseteq> set ?l" "colon \<notin> set ?a"
    by (auto simp: spec_after_last_colon_eq dest: set_takeWhileD)
  have p: "set ?p \<subseteq> set ?a" "period \<notin> set ?p"
    by (auto simp: spec_first_period_segment_def dest: set_takeWhileD)
  have "set (clean_sentiment s) \<subseteq> set ?p"
    by (simp add: clean_sentiment_closed_form normalize_steps_def strip_subset)
  with q l a p show ?thesis by blast
qed

section \<open>The normalizer against its specification\<close>

text \<open>
  Claim C4, as amended. The clean-up of the sentiment completion performs, in order: remove
  every quote character (double quote or apostrophe), wherever it stands, and trim
  whitespace; keep only the first line; keep only the text after the last colon if there is
  a colon; keep only the segment before the first period; trim whitespace. On the
  completion "Sentiment: Frustrated and Negative. The customer was upset." it yields
  "Frustrated and Negative".
\<close>

theorem clean_sentiment_normalize_steps:
  "(\<forall>s. clean_sentiment s = normalize_steps s) \<and>
   clean_sentiment ''Sentiment: Frustrated and Negative. The customer was upset.''
     = ''Frustrated and Negative''"
proof
  show "\<forall>s. clean_sentiment s = normalize_steps s"
    by (simp add: clean_sentiment_closed_form)
  show "clean_sentiment ''Sentiment: Frustrated and Negative. The customer was upset.''
     = ''Frustrated and Negative''"
    by code_simp
qed

text \<open>
  Claim C4 as stated, with quote characters stripped where they surround the text: on the
  completion "Customer's mood is hopeful" the five steps keep the apostrophe, and the code
  removes it.
\<close>

theorem clean_sentiment_inner_quote_counterexample:
  "clean_sentiment ''Customer's mood is hopeful'' = ''Customers mood is hopeful'' \<and>
   spec_normalize ''Customer's mood is hopeful'' = ''Customer's mood is hopeful'' \<and>
   clean_sentiment ''Customer's mood is hopeful'' \<noteq> spec_normalize ''Customer's mood is hopeful''"
proof -
  have c: "clean_sentiment ''Customer's mood is hopeful'' = ''Customers mood is hopeful''"
    by code_simp
  have s: "spec_normalize ''Customer's mood is hopeful'' = ''Customer's mood is hopeful''"
    by code_simp
  show ?thesis unfolding c s by simp
qed

text \<open>
  Claim C5. The normalizer is idempotent: cleaning a cleaned sentiment changes nothing,
  for every input string.
\<close>

theorem clean_sentiment_idempotent:
  "clean_sentiment (clean_sentiment s) = clean_sentiment s"
proof -
  have "strip (clean_sentiment s) = clean_sentiment s"
    by (simp add: clean_sentiment_closed_form normalize_steps_def strip_idem)
  then show ?thesis
    using clean_sentiment_chars [of s] by (intro clean_sentiment_fixed) simp_all
qed

section \<open>analyze\_transcript: failures become error strings\<close>

lemma startswith_append: "startswith (p @ s) p"
  by (simp add: startswith_def)

text \<open>
  Claim C1. For every transcript, when the client is \<open>None\<close>, or a call of the client
  raises (the summary call, or the sentiment call after a summary was returned),
  \<open>analyze_transcript\<close> returns a pair whose summary and sentiment both start with
  "Error". It returns a pair on every input: each raise inside its \<open>try\<close> is a branch of
  the function, none leaves it.
\<close>

theorem analyze_transcript_error_pair:
  assumes "client = None \<or>
           (\<exists>create. client = Some create \<and>
              (isl (create (summary_request transcript)) \<or>
               isl (create (sentiment_request transcript))))"
  shows "startswith (fst (fst (analyze_transcript client transcript w))) ''Error'' \<and>
         startswith (snd (fst (analyze_transcript client transcript w))) ''Error''"
proof -
  have e1: "startswith (''Error generating summary: '' @ m) ''Error''" for m
    by (simp add: startswith_def)
  have e2: "startswith (''Error analyzing sentiment: '' @ m) ''Error''" for m
    by (simp add: startswith_def)
  have e0: "startswith ''Error: Groq client not initialized'' ''Error''"
    by (simp add: startswith_def)
  from assms show ?thesis
  proof
    assume "client = None"
    then show ?thesis using e0 by (simp add: analyze_transcript_def)
  next
    assume "\<exists>create. client = Some create \<and>
              (isl (create (summary_request transcript)) \<or>
               isl (create (sentiment_request transcript)))"
    then obtain create where c: "client = Some create"
      and r: "isl (create (summary_request transcript)) \<or>
              isl (create (sentiment_request transcript))" by blast
    show ?thesis
    proof (cases "create (summary_request transcript)")
      case (Inl e)
      with c show ?thesis using e1 e2 by (simp add: analyze_transcript_def Let_def)
    next
      case (Inr x)
      with r obtain e where "create (sentiment_request transcript) = Inl e"
        by (cases "create (sentiment_request transcript)") auto
      with c Inr show ?thesis using e1 e2 by (simp add: analyze_transcript_def Let_def)
    qed
  qed
qed

text \<open>The claim at a client whose calls raise, and at no client.\<close>

theorem analyze_transcript_error_pair_witness:
  "startswith (fst (fst (analyze_transcript (Some failing_client) (PStr ''hello'') empty_world))) ''Error'' \<and>
   startswith (snd (fst (analyze_transcript (Some failing_client) (PStr ''hello'') empty_world))) ''Error'' \<and>
   startswith (fst (fst (analyze_transcript None (PStr ''hello'') empty_world))) ''Error'' \<and>
   startswith (snd (fst (analyze_transcript None (PStr ''hello'') empty_world))) ''Error''"
proof -
  have h: "Some failing_client = None \<or>
           (\<exists>create. Some failing_client = Some create \<and>
              (isl (create (summary_request (PStr ''hello''))) \<or>
               isl (create (sentiment_request (PStr ''hello'')))))"
    by (simp add: failing_client_def)
  show ?thesis
    using analyze_transcript_error_pair [OF h, of empty_world]
      analyze_transcript_error_pair [of None "PStr ''hello''" empty_world]
    by simp
qed

section \<open>The handlers save exactly the analyses without error\<close>

lemma analyze_transcript_keeps:
  "csv_file (snd (analyze_transcript client transcript w)) = csv_file w \<and>
   saves (snd (analyze_transcript client transcript w)) = saves w \<and>
   flashes (snd (analyze_transcript client transcript w)) = flashes w"
  by (simp add: analyze_transcript_def Let_def split: option.splits sum.splits)

lemma save_to_csv_saves:
  "saves (snd (save_to_csv transcript summary sentiment w)) =
     saves w @ [(transcript, summary, sentiment)]"
  by (simp add: save_to_csv_def Let_def split: pyval.splits)

lemma analyze_save_decided:
  assumes "analyze_input loads req w = Inr transcript"
    and "analyze_transcript client transcript w = ((summary, sentiment), w1)"
  shows "save_decided w (snd (analyze loads client req w)) transcript summary sentiment"
proof -
  have k: "csv_file w1 = csv_file w" "saves w1 = saves w"
    using analyze_transcript_keeps [of client transcript w] assms(2) by simp_all
  show ?thesis
  proof (cases "startswith summary ''Error'' \<or> startswith sentiment ''Error''")
    case True
    then show ?thesis using assms k
      by (auto simp: analyze_def save_decided_def Let_def)
  next
    case False
    have "saves (snd (save_to_csv transcript summary sentiment w1)) =
            saves w @ [(transcript, summary, sentiment)]"
      using save_to_csv_saves [of transcript summary sentiment w1] k by simp
    with False show ?thesis using assms
      by (auto simp: analyze_def save_decided_def Let_def split: prod.splits option.splits)
  qed
qed

lemma api_analyze_save_decided:
  assumes "map_of d ''transcript'' = Some (PStr t)" and "strip t \<noteq> []"
    and "analyze_transcript client (PStr (strip t)) w = ((summary, sentiment), w1)"
  shows "save_decided w (snd (api_analyze client (PDict d) w)) (PStr (strip t)) summary sentiment"
proof -
  have k: "csv_file w1 = csv_file w" "saves w1 = saves w"
    using analyze_transcript_keeps [of client "PStr (strip t)" w] assms(3) by simp_all
  have d: "d \<noteq> []" using assms(1) by auto
  show ?thesis
  proof (cases "startswith summary ''Error'' \<or> startswith sentiment ''Error''")
    case True
    then show ?thesis using assms k d
      by (auto simp: api_analyze_def save_decided_def Let_def py_contains_def py_getitem_def
            py_strip_def)
  next
    case False
    have "saves (snd (save_to_csv (PStr (strip t)) summary sentiment w1)) =
            saves w @ [(PStr (strip t), summary, sentiment)]"
      using save_to_csv_saves [of "PStr (strip t)" summary sentiment w1] k by simp
    with False show ?thesis using assms d
      by (auto simp: api_analyze_def save_decided_def Let_def py_contains_def py_getitem_def
            py_strip_def split: prod.splits option.splits)
  qed
qed

text \<open>
  Claim C2. In the page handler and in the API handler alike, once the input has passed the
  checks and the analysis has returned \<open>summary\<close> and \<open>sentiment\<close>:
  \<open>save_to_csv\<close> is called (once, with the transcript and the two texts) exactly when
  neither text starts with "Error"; when either does, it is not called and the CSV file is
  left as it was.
\<close>

theorem save_iff_no_error:
  "(analyze_input loads req w = Inr transcript \<and>
    analyze_transcript client transcript w = ((summary, sentiment), w1)
      \<longrightarrow> save_decided w (snd (analyze loads client req w)) transcript summary sentiment) \<and>
   (map_of d ''transcript'' = Some (PStr t) \<and> strip t \<noteq> [] \<and>
    analyze_transcript client (PStr (strip t)) w = ((summary', sentiment'), w1')
      \<longrightarrow> save_decided w (snd (api_analyze client (PDict d) w)) (PStr (strip t))
            summary' sentiment')"
  using analyze_save_decided api_analyze_save_decided by blast

lemma strip_label: "strip ''Satisfied and Positive'' = ''Satisfied and Positive''"
  by code_simp
lemma clean_label: "clean_sentiment ''Satisfied and Positive'' = ''Satisfied and Positive''"
  by code_simp
lemma strip_hello: "strip ''hello'' = ''hello''"
  by code_simp
lemma strip_hello_sp: "strip '' hello '' = ''hello''"
  by code_simp

lemma echo_result:
  "fst (analyze_transcript (Some echo_client) transcript w) =
     (''Satisfied and Positive'', ''Satisfied and Positive'')"
  by (simp add: analyze_transcript_def echo_client_def Let_def strip_label clean_label)

lemma none_result:
  "analyze_transcript None transcript w =
     ((''Error: Groq client not initialized'', ''Error: Groq client not initialized''), w)"
  by (simp add: analyze_transcript_def)

lemma not_error_label: "\<not> startswith ''Satisfied and Positive'' ''Error''"
  by (simp add: startswith_def)
lemma error_none: "startswith ''Error: Groq client not initialized'' ''Error''"
  by (simp add: startswith_def)

lemma form_input: "analyze_input loads (form_request ''hello'') w = Inr (PStr ''hello'')"
  by (simp add: analyze_input_def form_request_def strip_hello Let_def)

text \<open>
  Both handlers on the transcript "hello": with a client that answers, the save is logged;
  with no client, nothing is saved and no file appears.
\<close>

theorem save_iff_no_error_witness:
  "saves (snd (analyze (const_loads PNone) (Some echo_client) (form_request ''hello'') empty_world))
     = [(PStr ''hello'', ''Satisfied and Positive'', ''Satisfied and Positive'')] \<and>
   saves (snd (api_analyze (Some echo_client) (PDict [(''transcript'', PStr '' hello '')]) empty_world))
     = [(PStr ''hello'', ''Satisfied and Positive'', ''Satisfied and Positive'')] \<and>
   saves (snd (analyze (const_loads PNone) None (form_request ''hello'') empty_world)) = [] \<and>
   csv_file (snd (analyze (const_loads PNone) None (form_request ''hello'') empty_world)) = None \<and>
   saves (snd (api_analyze None (PDict [(''transcript'', PStr '' hello '')]) empty_world)) = [] \<and>
   csv_file (snd (api_analyze None (PDict [(''transcript'', PStr '' hello '')]) empty_world)) = None"
proof -
  let ?ok = "''Satisfied and Positive''"
  let ?err = "''Error: Groq client not initialized''"
  let ?d = "[(''transcript'', PStr '' hello '')]"
  have a: "analyze_transcript (Some echo_client) (PStr ''hello'') empty_world =
      ((?ok, ?ok), snd (analyze_transcript (Some echo_client) (PStr ''hello'') empty_world))"
    using echo_result [of "PStr ''hello''" empty_world] by (simp add: prod_eq_iff)
  have m: "map_of ?d ''transcript'' = Some (PStr '' hello '')" by simp
  have s: "strip '' hello '' \<noteq> []" by (simp add: strip_hello_sp)
  have p1: "save_decided empty_world
      (snd (analyze (const_loads PNone) (Some echo_client) (form_request ''hello'') empty_world))
      (PStr ''hello'') ?ok ?ok"
    using save_iff_no_error [of "const_loads PNone" "form_request ''hello''" empty_world
        "PStr ''hello''" "Some echo_client" ?ok ?ok _ "[]" "[]"] form_input a
    by simp
  have p2: "save_decided empty_world
      (snd (api_analyze (Some echo_client) (PDict ?d) empty_world)) (PStr ''hello'') ?ok ?ok"
    using save_iff_no_error [of "const_loads PNone" "form_request ''hello''" empty_world
        "PStr ''hello''" "Some echo_client" _ _ _ ?d "'' hello ''" ?ok ?ok] m s a
    by (simp add: strip_hello_sp)
  have p3: "save_decided empty_world
      (snd (analyze (const_loads PNone) None (form_request ''hello'') empty_world))
      (PStr ''hello'') ?err ?err"
    using save_iff_no_error [of "const_loads PNone" "form_request ''hello''" empty_world
        "PStr ''hello''" None ?err ?err empty_world "[]" "[]"] form_input none_result
    by simp
  have p4: "save_decided empty_world
      (snd (api_analyze None (PDict ?d) empty_world)) (PStr ''hello'') ?err ?err"
    using save_iff_no_error [of "const_loads PNone" "form_request ''hello''" empty_world
        "PStr ''hello''" None _ _ _ ?d "'' hello ''" ?err ?err empty_world] m s none_result
    by (simp add: strip_hello_sp)
  show ?thesis
    using p1 p2 p3 p4
    by (simp add: save_decided_def not_error_label error_none empty_world_def)
qed

section \<open>What a save leaves in the store\<close>

lemma replace_single: "replace old [new] s = map (\<lambda>c. if c = old then new else c) s"
  by (induction s) (auto simp: replace_def)

lemma clean_field_eq: "clean_field x = strip (spec_sanitize x)"
proof -
  have "(\<lambda>c. if c = CR then space else c) \<circ> (\<lambda>c. if c = LF then space else c)
      = (\<lambda>c. if c = LF \<or> c = CR then space else c)"
    by (auto simp: fun_eq_iff space_def LF_def CR_def)
  then show ?thesis
    by (simp add: clean_field_def spec_sanitize_def replace_single replace_nil)
qed

lemma csv_header_text: "csv_header = ''Transcript,Summary,Sentiment'' @ [CR, LF]"
  by (simp add: csv_header_def csv_row_def csv_field_def comma_def dquote_def CR_def LF_def)

lemma save_to_csv_str:
  "save_to_csv (PStr t) s m w =
     (None, w\<lparr>saves := saves w @ [(PStr t, s, m)], csv_file := Some (stored_text t s m)\<rparr>)"
  by (simp add: save_to_csv_def Let_def stored_text_def clean_field_eq csv_header_text)

lemma spec_sanitize_chars:
  "dquote \<notin> set (spec_sanitize x) \<and> CR \<notin> set (spec_sanitize x) \<and> LF \<notin> set (spec_sanitize x)"
  by (auto simp: spec_sanitize_def space_def CR_def LF_def)

lemma clean_chars:
  "dquote \<notin> set (strip (spec_sanitize x)) \<and> CR \<notin> set (strip (spec_sanitize x)) \<and>
   LF \<notin> set (strip (spec_sanitize x))"
  using spec_sanitize_chars [of x] set_strip by blast

lemma csv_field_plain:
  assumes "dquote \<notin> set f" "CR \<notin> set f" "LF \<notin> set f"
  shows "csv_field f = (if comma \<in> set f then [dquote] @ f @ [dquote] else f)"
proof -
  have r: "replace dquote [dquote, dquote] f = f"
    using assms(1) by (induction f) (auto simp: replace_def)
  have "list_ex (\<lambda>c. c = comma \<or> c = dquote \<or> c = CR \<or> c = LF) f = (comma \<in> set f)"
    using assms by (auto simp: list_ex_iff)
  then show ?thesis by (simp add: csv_field_def r)
qed

lemma csv_field_no_LF:
  assumes "dquote \<notin> set f" "CR \<notin> set f" "LF \<notin> set f"
  shows "filter (\<lambda>c. c = LF) (csv_field f) = []"
  using assms by (auto simp: csv_field_plain filter_empty_conv dquote_def LF_def)

lemma stored_text_lines: "length (filter (\<lambda>c. c = LF) (stored_text t s m)) = 2"
proof -
  have n: "filter (\<lambda>c. c = CHR 0x0A) (csv_field (strip (spec_sanitize x))) = []" for x
    using clean_chars [of x] csv_field_no_LF [of "strip (spec_sanitize x)"]
    by (simp add: LF_def)
  show ?thesis
    by (simp add: stored_text_def csv_row_def n comma_def LF_def CR_def)
qed

lemma save_all_snoc:
  "save_all w (rs @ [(t, s, m)]) = snd (save_to_csv (PStr t) s m (save_all w rs))"
  by (induction w rs rule: save_all.induct) auto

text \<open>
  Claim C3, as amended. For every triple of strings, \<open>save_to_csv\<close> returns without
  raising and overwrites the file, whatever it held, with the header row
  \<open>Transcript,Summary,Sentiment\<close> and one data row holding the three fields, each
  sanitized by replacing every line feed and carriage return with a space, removing every
  double quote, and then trimming whitespace at both ends. The text has exactly two line
  ends, the header's and the data row's. After any sequence of saves the file is the one
  the last save alone writes.
\<close>

theorem save_to_csv_overwrites:
  "fst (save_to_csv (PStr t) s m w) = None \<and>
   csv_file (snd (save_to_csv (PStr t) s m w)) = Some (stored_text t s m) \<and>
   length (filter (\<lambda>c. c = LF) (stored_text t s m)) = 2 \<and>
   csv_file (save_all w (rs @ [(t, s, m)])) = Some (stored_text t s m)"
  by (simp add: save_to_csv_str save_all_snoc stored_text_lines)

text \<open>
  Claim C3 as stated leaves the trimming out: at the transcript " hi" the file holds the
  field "hi", not the field " hi" that replacing and removing alone would give.
\<close>

theorem save_to_csv_untrimmed_counterexample:
  "csv_file (snd (save_to_csv (PStr '' hi'') ''b'' ''c'' empty_world))
     \<noteq> Some (claimed_text '' hi'' ''b'' ''c'')"
proof -
  have a: "strip (spec_sanitize '' hi'') = ''hi''" by code_simp
  have b: "strip (spec_sanitize ''b'') = ''b''" by code_simp
  have c: "strip (spec_sanitize ''c'') = ''c''" by code_simp
  have l: "stored_text '' hi'' ''b'' ''c'' = ''Transcript,Summary,Sentiment'' @ [CR, LF] @ ''hi,b,c'' @ [CR, LF]"
    by (simp add: stored_text_def a b c csv_row_def csv_field_def comma_def dquote_def CR_def LF_def)
  have r: "claimed_text '' hi'' ''b'' ''c'' = ''Transcript,Summary,Sentiment'' @ [CR, LF] @ '' hi,b,c'' @ [CR, LF]"
    by code_simp
  show ?thesis by (simp add: save_to_csv_str l r)
qed

section \<open>Transcript extractor\<close>

lemma parse_json_transcript_dict:
  assumes "loads text = Inr (PDict d)"
  shows "parse_json_transcript loads text =
           Inr (case first_match priority_keys d of
                  Some v \<Rightarrow> v
                | None \<Rightarrow> PStr (py_str (PDict d)))"
  using assms
  by (simp add: parse_json_transcript_def priority_keys_def split: option.splits)

lemma parse_json_transcript_list:
  assumes "loads text = Inr (PList items)"
  shows "parse_json_transcript loads text = Inr (PStr (join '' '' (map py_str items)))"
  using assms by (simp add: parse_json_transcript_def)

lemma parse_json_transcript_invalid:
  assumes "loads text = Inl (Exc JSONDecodeError msg)"
  shows "parse_json_transcript loads text = Inr PNone"
  using assms by (simp add: parse_json_transcript_def)

lemma py_str_42: "py_str (PInt 42) = ''42''"
  by code_simp

lemma endswith_json: "endswith ''call.json'' ''.json''"
  by (simp add: endswith_def)

text \<open>
  Claim C6 at the document \<open>{"transcript": 42}\<close>: \<open>parse_json_transcript\<close> returns the
  number 42 itself, not its text "42" as the other branches of the function would (they
  apply \<open>str\<close>). With a client that answers, the page handler then fails in
  \<open>save_to_csv\<close> with \<open>AttributeError\<close>.
\<close>

theorem parse_json_transcript_returns_raw_value:
  "parse_json_transcript (const_loads (PDict [(''transcript'', PInt 42)])) ''{\"transcript\": 42}''
     = Inr (PInt 42) \<and>
   parse_json_transcript (const_loads (PDict [(''transcript'', PInt 42)])) ''{\"transcript\": 42}''
     \<noteq> Inr (PStr (py_str (PInt 42))) \<and>
   py_str (PInt 42) = ''42'' \<and>
   fst (analyze (const_loads (PDict [(''transcript'', PInt 42)])) (Some echo_client)
          (upload_request ''call.json'' ''{\"transcript\": 42}'') empty_world)
     = ServerError AttributeError"
proof -
  let ?loads = "const_loads (PDict [(''transcript'', PInt 42)])"
  have p: "parse_json_transcript ?loads ''{\"transcript\": 42}'' = Inr (PInt 42)"
    by (simp add: parse_json_transcript_def const_loads_def)
  have i: "analyze_input ?loads (upload_request ''call.json'' ''{\"transcript\": 42}'') empty_world
      = Inr (PInt 42)"
    by (simp add: analyze_input_def upload_request_def p endswith_json Let_def)
  obtain w1 where a: "analyze_transcript (Some echo_client) (PInt 42) empty_world =
      ((''Satisfied and Positive'', ''Satisfied and Positive''), w1)"
    using echo_result [of "PInt 42" empty_world]
    by (cases "analyze_transcript (Some echo_client) (PInt 42) empty_world") auto
  have "fst (analyze ?loads (Some echo_client)
          (upload_request ''call.json'' ''{\"transcript\": 42}'') empty_world)
     = ServerError AttributeError"
    by (simp add: analyze_def i a not_error_label save_to_csv_def Let_def)
  with p show ?thesis by (simp add: py_str_42)
qed

text \<open>
  A mapping whose first present key has a false value is handled as a document that
  \<open>json.loads\<close> rejects: both reach the test of line 180 with a false transcript.
\<close>

lemma falsy_value_as_invalid_json:
  assumes "loads content = Inr (PDict d)" and "first_match priority_keys d = Some v"
    and "\<not> truthy v"
  shows "analyze_input loads (upload_request name content) w =
         analyze_input (\<lambda>json_content. Inl (Exc JSONDecodeError msg))
           (upload_request name content) w"
proof -
  have p: "parse_json_transcript loads content = Inr v"
    using assms(1,2) by (simp add: parse_json_transcript_dict)
  have q: "parse_json_transcript (\<lambda>json_content. Inl (Exc JSONDecodeError msg)) content
             = Inr PNone"
    by (simp add: parse_json_transcript_invalid)
  show ?thesis
    using assms(3) by (simp add: analyze_input_def upload_request_def p q Let_def)
qed

lemma flash_raises: "\<exists>e. flash message category w = Inl e \<and> exc_type e = RuntimeError"
  by (simp add: flash_def app_secret_key_def)

lemma flash_and_redirect_raises:
  "flash_and_redirect message endpoint w = (ServerError RuntimeError, w)"
  using flash_raises [of message "''error''" w]
  by (auto simp: flash_and_redirect_def)

text \<open>
  Claim C9 at the uploaded document \<open>{"transcript": ""}\<close>: the page handler does what it
  does for a document that fails to parse, but that is not a flashed "Invalid JSON format"
  message and a redirect. The flash of line 181 raises \<open>RuntimeError\<close> for want of a secret
  key, line 183 catches it, the flash of line 184 raises again, and the exception leaves
  the handler with nothing flashed.
\<close>

theorem falsy_value_flash_raises:
  "analyze (const_loads (PDict [(''transcript'', PStr [])])) None
     (upload_request ''call.json'' ''{\"transcript\": \"\"}'') empty_world
     = (ServerError RuntimeError, empty_world) \<and>
   analyze (\<lambda>json_content. Inl (Exc JSONDecodeError ''Expecting value'')) None
     (upload_request ''call.json'' ''{\"transcript\": \"\"}'') empty_world
     = (ServerError RuntimeError, empty_world) \<and>
   flashes empty_world = []"
proof -
  have p: "parse_json_transcript (const_loads (PDict [(''transcript'', PStr [])]))
             ''{\"transcript\": \"\"}'' = Inr (PStr [])"
    by (simp add: parse_json_transcript_def const_loads_def)
  have q: "parse_json_transcript (\<lambda>json_content. Inl (Exc JSONDecodeError ''Expecting value''))
             ''{\"transcript\": \"\"}'' = Inr PNone"
    by (simp add: parse_json_transcript_def)
  have f: "flash ''Invalid JSON format. Please check your file.'' ''error'' empty_world
      = Inl (Exc RuntimeError
               (''The session is unavailable because no secret key was set.  '' @
                ''Set the secret_key on the application to something unique and secret.''))"
    by (simp add: flash_def app_secret_key_def)
  have i1: "analyze_input (const_loads (PDict [(''transcript'', PStr [])]))
              (upload_request ''call.json'' ''{\"transcript\": \"\"}'') empty_world
            = Inl (ServerError RuntimeError, empty_world)"
    by (simp add: analyze_input_def upload_request_def endswith_json p f
          flash_and_redirect_raises Let_def)
  have i2: "analyze_input (\<lambda>json_content. Inl (Exc JSONDecodeError ''Expecting value''))
              (upload_request ''call.json'' ''{\"transcript\": \"\"}'') empty_world
            = Inl (ServerError RuntimeError, empty_world)"
    by (simp add: analyze_input_def upload_request_def endswith_json q f
          flash_and_redirect_raises Let_def)
  have n: "flashes empty_world = []" by (simp add: empty_world_def)
  show ?thesis by (simp add: analyze_def i1 i2 n)
qed

section \<open>The API handler\<close>

lemma api_analyze_dict:
  assumes "d \<noteq> []"
  shows "api_analyze client (PDict d) w =
     (case map_of d ''transcript'' of
        None \<Rightarrow> (Json 400 [(''error'', PStr ''No transcript provided'')], w)
      | Some v \<Rightarrow>
          (case py_strip v of
             Inl e \<Rightarrow> (ServerError e, w)
           | Inr transcript \<Rightarrow>
               (if transcript = []
                then (Json 400 [(''error'', PStr ''Empty transcript provided'')], w)
                else case analyze_transcript client (PStr transcript) w of
                  ((summary, sentiment), w1) \<Rightarrow>
                    (let body = [(''transcript'', PStr transcript), (''summary'', PStr summary),
                                 (''sentiment'', PStr sentiment), (''status'', PStr ''success'')]
                     in if \<not> (startswith summary ''Error'' \<or> startswith sentiment ''Error'')
                        then (case save_to_csv (PStr transcript) summary sentiment w1 of
                                (Some e, w2) \<Rightarrow> (ServerError e, w2)
                              | (None, w2) \<Rightarrow> (Json 200 body, w2))
                        else (Json 200 body, w1)))))"
  using assms
  by (simp add: api_analyze_def py_contains_def py_getitem_def split: option.splits)

lemma api_analyze_empty_dict:
  "api_analyze client (PDict []) w = (Json 400 [(''error'', PStr ''No transcript provided'')], w)"
  by (simp add: api_analyze_def)

text \<open>
  Claim C7. For every JSON object posted to \<open>/api/analyze\<close> that has no transcript key,
  or whose transcript is a string that is empty once trimmed, the handler answers with
  status 400 and a JSON object with an \<open>error\<close> field, and leaves the world as it was: no
  inference call, no save, the file untouched.
\<close>

theorem api_analyze_rejects_missing_or_empty:
  assumes "map_of d ''transcript'' = None \<or>
           (\<exists>t. map_of d ''transcript'' = Some (PStr t) \<and> strip t = [])"
  shows "(\<exists>message. api_analyze client (PDict d) w = (Json 400 [(''error'', PStr message)], w)) \<and>
         inference_calls (snd (api_analyze client (PDict d) w)) = inference_calls w \<and>
         saves (snd (api_analyze client (PDict d) w)) = saves w \<and>
         csv_file (snd (api_analyze client (PDict d) w)) = csv_file w"
proof (cases "d = []")
  case True
  then show ?thesis by (simp add: api_analyze_empty_dict)
next
  case False
  from assms show ?thesis
  proof
    assume "map_of d ''transcript'' = None"
    then show ?thesis using False by (simp add: api_analyze_dict)
  next
    assume "\<exists>t. map_of d ''transcript'' = Some (PStr t) \<and> strip t = []"
    then show ?thesis using False by (auto simp: api_analyze_dict py_strip_def)
  qed
qed

text \<open>
  The claim at \<open>{"text": "hello"}\<close>, at a transcript of three spaces and at
  \<open>{"transcript": ""}\<close>.
\<close>

theorem api_analyze_rejects_missing_or_empty_witness:
  "api_analyze (Some echo_client) (PDict [(''text'', PStr ''hello'')]) empty_world
     = (Json 400 [(''error'', PStr ''No transcript provided'')], empty_world) \<and>
   api_analyze (Some echo_client) (PDict [(''transcript'', PStr ''   '')]) empty_world
     = (Json 400 [(''error'', PStr ''Empty transcript provided'')], empty_world) \<and>
   api_analyze (Some echo_client) (PDict [(''transcript'', PStr [])]) empty_world
     = (Json 400 [(''error'', PStr ''Empty transcript provided'')], empty_world)"
proof -
  have s: "strip ''   '' = []" by code_simp
  have s0: "strip [] = []" by code_simp
  have h1: "map_of [(''text'', PStr ''hello'')] ''transcript'' = None \<or>
      (\<exists>t. map_of [(''text'', PStr ''hello'')] ''transcript'' = Some (PStr t) \<and> strip t = [])"
    by simp
  have h2: "map_of [(''transcript'', PStr ''   '')] ''transcript'' = None \<or>
      (\<exists>t. map_of [(''transcript'', PStr ''   '')] ''transcript'' = Some (PStr t) \<and> strip t = [])"
    using s by simp
  have h3: "map_of [(''transcript'', PStr [])] ''transcript'' = None \<or>
      (\<exists>t. map_of [(''transcript'', PStr [])] ''transcript'' = Some (PStr t) \<and> strip t = [])"
    using s0 by simp
  have e1: "api_analyze (Some echo_client) (PDict [(''text'', PStr ''hello'')]) empty_world
     = (Json 400 [(''error'', PStr ''No transcript provided'')], empty_world)"
    using api_analyze_rejects_missing_or_empty [OF h1, of "Some echo_client" empty_world]
    by (simp add: api_analyze_dict)
  have e2: "api_analyze (Some echo_client) (PDict [(''transcript'', PStr ''   '')]) empty_world
     = (Json 400 [(''error'', PStr ''Empty transcript provided'')], empty_world)"
    using api_analyze_rejects_missing_or_empty [OF h2, of "Some echo_client" empty_world]
    by (simp add: api_analyze_dict py_strip_def s)
  have e3: "api_analyze (Some echo_client) (PDict [(''transcript'', PStr [])]) empty_world
     = (Json 400 [(''error'', PStr ''Empty transcript provided'')], empty_world)"
    using api_analyze_rejects_missing_or_empty [OF h3, of "Some echo_client" empty_world]
    by (simp add: api_analyze_dict py_strip_def s0)
  show ?thesis using e1 e2 e3 by simp
qed

text \<open>
  Claim C10. When the posted object binds transcript to a value that is not a string,
  \<open>.strip()\<close> raises \<open>AttributeError\<close>, which leaves the handler before any response
  is built; and a 400 answer for an object that has the key is given only when the value is
  a string that is empty once trimmed.
\<close>

theorem api_analyze_non_string_raises:
  assumes "map_of d ''transcript'' = Some v"
  shows "((\<forall>s. v \<noteq> PStr s) \<longrightarrow>
            api_analyze client (PDict d) w = (ServerError AttributeError, w)) \<and>
         ((\<exists>body. fst (api_analyze client (PDict d) w) = Json 400 body) \<longrightarrow>
            (\<exists>s. v = PStr s \<and> strip s = []))"
proof -
  have d: "d \<noteq> []" using assms by auto
  show ?thesis
  proof (cases v)
    case (PStr s)
    show ?thesis
    proof (cases "strip s = []")
      case True
      with PStr show ?thesis by simp
    next
      case False
      obtain summary sentiment w1 where
        a: "analyze_transcript client (PStr (strip s)) w = ((summary, sentiment), w1)"
        by (metis prod.exhaust)
      obtain r w2 where
        b: "save_to_csv (PStr (strip s)) summary sentiment w1 = (r, w2)"
        by (metis prod.exhaust)
      have "\<not> (\<exists>body. fst (api_analyze client (PDict d) w) = Json 400 body)"
        using assms d PStr False a b
        by (auto simp: api_analyze_dict py_strip_def Let_def split: option.splits)
      with PStr show ?thesis by simp
    qed
  qed (use assms d in \<open>simp_all add: api_analyze_dict py_strip_def\<close>)
qed

text \<open>The claim at \<open>{"transcript": 42}\<close> and \<open>{"transcript": null}\<close>.\<close>

theorem api_analyze_non_string_raises_witness:
  "api_analyze None (PDict [(''transcript'', PInt 42)]) empty_world
     = (ServerError AttributeError, empty_world) \<and>
   api_analyze None (PDict [(''transcript'', PNone)]) empty_world
     = (ServerError AttributeError, empty_world)"
proof -
  have m1: "map_of [(''transcript'', PInt 42)] ''transcript'' = Some (PInt 42)" by simp
  have m2: "map_of [(''transcript'', PNone)] ''transcript'' = Some PNone" by simp
  show ?thesis
    using api_analyze_non_string_raises [OF m1, of None empty_world, THEN conjunct1]
      api_analyze_non_string_raises [OF m2, of None empty_world, THEN conjunct1]
    by simp
qed

section \<open>Download\<close>

text \<open>
  Claim C8 at a request made while \<open>call_analysis.csv\<close> does not exist: the handler
  creates the file with the header row alone, and then the flash of line 265 raises
  \<open>RuntimeError\<close> for want of a secret key; no \<open>try\<close> encloses it, so the handler ends in
  the exception and returns no redirect. When the file exists, it is served as an
  attachment named \<open>call_analysis.csv\<close> and nothing changes.
\<close>

theorem download_csv_flash_raises:
  "download_csv not_found empty_world =
     (ServerError RuntimeError,
      empty_world\<lparr>csv_file := Some (''Transcript,Summary,Sentiment'' @ [CR, LF])\<rparr>) \<and>
   download_csv not_found stored_world =
     (Attachment ''call_analysis.csv'' ''text/csv'' (stored_text ''hello'' ''ok'' ''fine''),
      stored_world)"
proof -
  have a: "csv_file empty_world = None" by (simp add: empty_world_def)
  have b: "csv_file stored_world = Some (stored_text ''hello'' ''ok'' ''fine'')"
    by (simp add: stored_world_def)
  show ?thesis
    by (simp add: download_csv_def send_file_def a b flash_and_redirect_raises csv_header_text)
qed

end
